theory Spec2Isabelle
  imports Complex_Main
begin

section \<open>Values, data frames and errors\<close>

text \<open>
  The walkthrough's program is the training cell (\<^verbatim>\<open>tutorial.ipynb\<close>, lines 70--116), the
  \<^verbatim>\<open>save_model\<close> cell (lines 255--270) and the service file \<^verbatim>\<open>fraud_detection_service.py\<close>
  (lines 291--314).  The pandas, scikit-learn (1.0.2), XGBoost and BentoML operations these
  lines call are embedded here by their behaviour on the frames the lines pass them.  The
  reading of a request's JSON text into a frame, which is pandas' behind BentoML's
  \<^verbatim>\<open>PandasDataFrame()\<close>, is not embedded: \<^verbatim>\<open>predict\<close> and the service are stated on the frame
  that \<^verbatim>\<open>predict\<close> receives.

  A cell of a data frame is a string, a number, or one of the three missing values that
  pandas and scikit-learn tell apart: \<open>NaN\<close> (the float \<^verbatim>\<open>nan\<close>), \<open>PyNone\<close> (Python's
  \<^verbatim>\<open>None\<close>) and \<open>NA\<close> (\<^verbatim>\<open>pd.NA\<close>).
\<close>

datatype cell = Str string | Num real | NaN | PyNone | NA

text \<open>
  A \<^verbatim>\<open>pd.DataFrame\<close>: the column labels and the rows, a row holding one cell per column,
  in column order.  The \<^verbatim>\<open>dtype\<close> of a column is the one pandas infers from its cells
  (\<open>numeric_dtype\<close> below).
\<close>

record frame =
  columns :: "string list"
  rows :: "cell list list"

text \<open>
  Every \<^verbatim>\<open>raise\<close> is a value.  \<open>KeyError\<close> carries the labels pandas did not find;
  \<open>ValueError\<close> and \<open>TypeError\<close> are raised by scikit-learn, \<open>ValueError\<close> also by the
  \<^verbatim>\<open>DataFrame\<close> constructor; \<open>PredictionError\<close> is the runner failing on a matrix that is
  not numeric.  The remaining constructors are the error taxonomy of the registry and the
  transport.
\<close>

datatype error =
    KeyError "string list"
  | ValueError
  | TypeError
  | PredictionError
  | ValidationError
  | NotFoundError
  | StorageError
  | UnavailableError
  | RouteNotFound

text \<open>Sequencing of fallible steps: the first error ends the computation.\<close>

fun and_then :: "error + 'a \<Rightarrow> ('a \<Rightarrow> error + 'b) \<Rightarrow> error + 'b" where
  "and_then (Inl e) f = Inl e"
| "and_then (Inr x) f = f x"

section \<open>The pandas operations of \<^verbatim>\<open>predict\<close>\<close>

text \<open>The cell of row \<open>r\<close> under label \<open>c\<close>, for a frame with column labels \<open>cols\<close>.\<close>

definition cell_at :: "string list \<Rightarrow> cell list \<Rightarrow> string \<Rightarrow> cell" where
  "cell_at cols r c = (case map_of (zip cols r) c of Some v \<Rightarrow> v | None \<Rightarrow> NaN)"

text \<open>
  \<^verbatim>\<open>df[[c1, ..., cn]]\<close>: the sub-frame of the listed columns, in the listed order; a
  \<^verbatim>\<open>KeyError\<close> naming the labels that are not columns of \<open>df\<close>.
\<close>

definition getitem :: "frame \<Rightarrow> string list \<Rightarrow> error + frame" where
  "getitem df names =
     (let missing = filter (\<lambda>c. c \<notin> set (columns df)) names
      in if missing \<noteq> [] then Inl (KeyError missing)
         else Inr \<lparr>columns = names,
                   rows = map (\<lambda>r. map (cell_at (columns df) r) names) (rows df)\<rparr>)"

text \<open>
  \<^verbatim>\<open>X.fillna(pd.NA)\<close>: every missing cell becomes \<^verbatim>\<open>pd.NA\<close> (line 308).  A numeric column
  with a missing cell cannot hold \<^verbatim>\<open>pd.NA\<close> and becomes an object column; one without stays
  as it is.
\<close>

fun fill_cell :: "cell \<Rightarrow> cell" where
  "fill_cell NaN = NA"
| "fill_cell PyNone = NA"
| "fill_cell NA = NA"
| "fill_cell (Str s) = Str s"
| "fill_cell (Num x) = Num x"

definition fillna :: "frame \<Rightarrow> frame" where
  "fillna X = X\<lparr>rows := map (map fill_cell) (rows X)\<rparr>"

text \<open>\<^verbatim>\<open>df.to_numpy()\<close>: the rows without the labels.\<close>

definition to_numpy :: "frame \<Rightarrow> cell list list" where
  "to_numpy df = rows df"

text \<open>
  \<^verbatim>\<open>pd.DataFrame(data, columns=names)\<close> on a two-dimensional array: a \<^verbatim>\<open>ValueError\<close> when
  the width of the data is not the number of labels.
\<close>

definition DataFrame :: "cell list list \<Rightarrow> string list \<Rightarrow> error + frame" where
  "DataFrame data names =
     (if list_all (\<lambda>r. length r = length names) data
      then Inr \<lparr>columns = names, rows = data\<rparr>
      else Inl ValueError)"

text \<open>The position of the first occurrence of a label.\<close>

fun index_of :: "'a \<Rightarrow> 'a list \<Rightarrow> nat" where
  "index_of x [] = 0"
| "index_of x (y # ys) = (if x = y then 0 else Suc (index_of x ys))"

text \<open>
  \<^verbatim>\<open>X[name] = a\<close> for an array \<open>a\<close> of shape \<open>(n, 1)\<close>: the column \<open>name\<close> is overwritten
  when \<open>X\<close> has it and appended as the last column otherwise; a \<^verbatim>\<open>ValueError\<close> when \<open>a\<close>
  has not one value per row of \<open>X\<close>.
\<close>

definition setitem :: "frame \<Rightarrow> string \<Rightarrow> cell list list \<Rightarrow> error + frame" where
  "setitem X name a =
     (if length a \<noteq> length (rows X) then Inl ValueError
      else if name \<in> set (columns X)
      then Inr (X\<lparr>rows := map2 (\<lambda>r v. r[index_of name (columns X) := v])
                                (rows X) (concat a)\<rparr>)
      else Inr \<lparr>columns = columns X @ [name],
                rows = map2 (\<lambda>r v. r @ [v]) (rows X) (concat a)\<rparr>)"

section \<open>The one-hot encoder\<close>

text \<open>
  The categories of a fitted \<^verbatim>\<open>OneHotEncoder\<close> over string columns: a string seen by
  \<^verbatim>\<open>fit\<close>, or the missing value, which \<^verbatim>\<open>fit\<close> keeps as a category of its own when the
  training column had one.
\<close>

datatype category = Cat string | CatNaN

datatype unknown_policy = Raise | Ignore

text \<open>
  The state of the encoder after lines 87--88: the \<^verbatim>\<open>handle_unknown\<close> argument, the labels
  of the columns it was fitted on, and per column the categories found.  The categories are
  computed by \<^verbatim>\<open>fit\<close> from \<^verbatim>\<open>data/train_transaction.csv\<close>, which is not part of the
  repository, so they are left open: every statement below is about any such encoder.
\<close>

record encoder =
  handle_unknown :: unknown_policy
  feature_names_in :: "string list"
  categories :: "category list list"

text \<open>
  Whether a cell is a given category.  The missing-value category is the float \<^verbatim>\<open>nan\<close> that
  \<^verbatim>\<open>fit\<close> saw in the training file (the training cell has no \<^verbatim>\<open>fillna\<close>); it is matched by
  \<open>NaN\<close> only, neither by \<^verbatim>\<open>None\<close> nor by \<^verbatim>\<open>pd.NA\<close>.
\<close>

fun is_category :: "category \<Rightarrow> cell \<Rightarrow> bool" where
  "is_category (Cat s) (Str t) = (s = t)"
| "is_category CatNaN NaN = True"
| "is_category c v = False"

text \<open>A cell is known to a column of the encoder when it is one of its categories.\<close>

definition known :: "category list \<Rightarrow> cell \<Rightarrow> bool" where
  "known cats v = list_ex (\<lambda>c. is_category c v) cats"

text \<open>The indicator block of one cell: one entry per category of its column.\<close>

definition onehot :: "category list \<Rightarrow> cell \<Rightarrow> cell list" where
  "onehot cats v = map (\<lambda>c. if is_category c v then Num 1 else Num 0) cats"

definition encode_row :: "category list list \<Rightarrow> cell list \<Rightarrow> cell list" where
  "encode_row catss r = concat (map2 onehot catss r)"

text \<open>
  The \<^verbatim>\<open>dtype\<close> pandas infers for a column: numeric (\<^verbatim>\<open>int64\<close> or \<^verbatim>\<open>float64\<close>) when every
  cell is a number or the float \<^verbatim>\<open>nan\<close>, which includes a column of \<^verbatim>\<open>nan\<close> only;
  \<^verbatim>\<open>object\<close> as soon as one cell is a string, \<^verbatim>\<open>None\<close> or \<^verbatim>\<open>pd.NA\<close>.
\<close>

fun float_cell :: "cell \<Rightarrow> bool" where
  "float_cell (Num x) = True"
| "float_cell NaN = True"
| "float_cell v = False"

definition numeric_dtype :: "cell list \<Rightarrow> bool" where
  "numeric_dtype col = list_all float_cell col"

text \<open>
  The fitted categories of a column are an object array when one of them is a string; the
  missing value alone makes a float array.
\<close>

fun string_category :: "category \<Rightarrow> bool" where
  "string_category (Cat s) = True"
| "string_category CatNaN = False"

text \<open>
  What \<^verbatim>\<open>transform\<close> raises on one column.  For a column of numeric \<^verbatim>\<open>dtype\<close> the encoder
  compares numerically and calls \<^verbatim>\<open>np.isnan\<close> on the fitted categories, a \<^verbatim>\<open>TypeError\<close> when
  these hold a string, whatever \<^verbatim>\<open>handle_unknown\<close> is.  Otherwise, under
  \<^verbatim>\<open>handle_unknown="error"\<close> only, a cell that is no known category is a \<^verbatim>\<open>ValueError\<close>.
\<close>

definition column_error :: "unknown_policy \<Rightarrow> category list \<Rightarrow> cell list \<Rightarrow> error option" where
  "column_error policy cats col =
     (if numeric_dtype col \<and> list_ex string_category cats then Some TypeError
      else if policy = Raise \<and> list_ex (\<lambda>v. \<not> known cats v) col then Some ValueError
      else None)"

text \<open>
  The first cell of a row.  A frame is rectangular, so the rows the encoder is given are as
  long as its columns are many; for a shorter row the cell is missing.
\<close>

fun first_cell :: "cell list \<Rightarrow> cell" where
  "first_cell [] = NaN"
| "first_cell (v # r) = v"

text \<open>The columns are checked in order; the first error is the one raised.\<close>

fun first_error :: "unknown_policy \<Rightarrow> category list list \<Rightarrow> cell list list \<Rightarrow> error option" where
  "first_error policy [] rs = None"
| "first_error policy (cats # catss) rs =
     (case column_error policy cats (map first_cell rs) of
        Some e \<Rightarrow> Some e
      | None \<Rightarrow> first_error policy catss (map tl rs))"

text \<open>
  \<^verbatim>\<open>enc.transform(X).toarray()\<close>.  A \<^verbatim>\<open>ValueError\<close> when \<open>X\<close> has not the number of
  columns the encoder was fitted on or has no row; then the error of the first column that
  has one.  Under \<^verbatim>\<open>handle_unknown="ignore"\<close> an unknown cell gets the all-zero block.
\<close>

definition transform :: "encoder \<Rightarrow> frame \<Rightarrow> error + cell list list" where
  "transform enc X =
     (if length (columns X) \<noteq> length (categories enc) then Inl ValueError
      else if rows X = [] then Inl ValueError
      else case first_error (handle_unknown enc) (categories enc) (rows X) of
             Some e \<Rightarrow> Inl e
           | None \<Rightarrow> Inr (map (encode_row (categories enc)) (rows X)))"

text \<open>\<^verbatim>\<open>str(category)\<close> as used in a feature name.\<close>

fun category_str :: "category \<Rightarrow> string" where
  "category_str (Cat s) = s"
| "category_str CatNaN = ''nan''"

text \<open>
  \<^verbatim>\<open>enc.get_feature_names_out()\<close>: for every fitted column, in order, the label of the
  column, an underscore and the category, for every category of the column, in order.
\<close>

definition get_feature_names_out :: "encoder \<Rightarrow> string list" where
  "get_feature_names_out enc =
     concat (map2 (\<lambda>n cats. map (\<lambda>c. n @ ''_'' @ category_str c) cats)
               (feature_names_in enc) (categories enc))"

section \<open>The classifier and its runner\<close>

text \<open>
  The fitted \<^verbatim>\<open>XGBClassifier(objective="binary:logistic")\<close> of lines 101--116.  Its trees
  are the result of training on the absent data set, so the probability it assigns to a
  row is left open; \<^verbatim>\<open>predict\<close> turns the probability into the class label: 1 above one
  half, 0 otherwise.
\<close>

record classifier =
  predict_proba :: "cell list \<Rightarrow> real"

definition xgb_predict :: "classifier \<Rightarrow> cell list \<Rightarrow> int" where
  "xgb_predict clf r = (if predict_proba clf r > 1 / 2 then 1 else 0)"

text \<open>A numeric entry of the matrix: a number or a missing number.\<close>

fun numeric :: "cell \<Rightarrow> bool" where
  "numeric (Num x) = True"
| "numeric NaN = True"
| "numeric v = False"

text \<open>
  \<^verbatim>\<open>fraud_classifier_runner.predict.run(X)\<close>: one label per row of \<open>X\<close>, in row order; the
  runner fails when an entry of \<open>X\<close> is not numeric.
\<close>

definition run :: "classifier \<Rightarrow> frame \<Rightarrow> error + int list" where
  "run clf X =
     (if list_all (list_all numeric) (rows X)
      then Inr (map (xgb_predict clf) (rows X))
      else Inl PredictionError)"

section \<open>Feature construction and \<^verbatim>\<open>predict\<close>\<close>

definition categorical_columns :: "string list" where
  "categorical_columns =
     [''ProductCD'', ''P_emaildomain'', ''R_emaildomain'', ''card4'', ''M1'', ''M2'', ''M3'']"

text \<open>
  Lines 83 and 90--93: the feature matrix the classifier is trained on, \<open>enc\<close> being the
  encoder as fitted on line 88.
\<close>

definition train_features :: "encoder \<Rightarrow> frame \<Rightarrow> error + frame" where
  "train_features enc df =
     and_then (getitem df categorical_columns) (\<lambda>X.
     and_then (transform enc X) (\<lambda>M.
     and_then (DataFrame M (get_feature_names_out enc)) (\<lambda>X.
     and_then (getitem df [''TransactionAmt'']) (\<lambda>amt.
     setitem X ''TransactionAmt'' (to_numpy amt)))))"

text \<open>Lines 307--313: the feature matrix \<^verbatim>\<open>predict\<close> builds from a request.\<close>

definition serve_features :: "encoder \<Rightarrow> frame \<Rightarrow> error + frame" where
  "serve_features enc df =
     and_then (getitem df categorical_columns) (\<lambda>X.
     and_then (transform enc (fillna X)) (\<lambda>M.
     and_then (DataFrame M (get_feature_names_out enc)) (\<lambda>X.
     and_then (getitem df [''TransactionAmt'']) (\<lambda>amt.
     setitem X ''TransactionAmt'' (to_numpy amt)))))"

text \<open>
  Lines 306--314: \<^verbatim>\<open>predict\<close>, with the two module-level objects it reads, the encoder
  \<^verbatim>\<open>ohe_encoder\<close> and the classifier behind \<^verbatim>\<open>fraud_classifier_runner\<close>, as arguments.
\<close>

definition predict :: "encoder \<Rightarrow> classifier \<Rightarrow> frame \<Rightarrow> error + int list" where
  "predict ohe_encoder clf df = and_then (serve_features ohe_encoder df) (run clf)"

text \<open>
  The features of one record, read off the request: the indicator blocks of its seven
  categorical cells after \<open>fill_cell\<close>, then its \<^verbatim>\<open>TransactionAmt\<close> cell as it came.
\<close>

definition row_features :: "encoder \<Rightarrow> string list \<Rightarrow> cell list \<Rightarrow> cell list" where
  "row_features enc cols r =
     encode_row (categories enc) (map (\<lambda>c. fill_cell (cell_at cols r c)) categorical_columns)
       @ [cell_at cols r ''TransactionAmt'']"

text \<open>
  The encoder of the service: built with \<^verbatim>\<open>handle_unknown="ignore"\<close> (line 87) and fitted on
  the seven categorical columns (lines 83 and 88).
\<close>

definition service_encoder :: "encoder \<Rightarrow> bool" where
  "service_encoder enc \<longleftrightarrow>
     handle_unknown enc = Ignore \<and>
     feature_names_in enc = categorical_columns \<and>
     length (categories enc) = length categorical_columns"

text \<open>
  The values of a categorical field: a string or a missing value.  A number under a
  categorical field is outside the schema of the service; on a column of numbers only the
  encoder raises (\<open>column_error\<close>).
\<close>

fun categorical :: "cell \<Rightarrow> bool" where
  "categorical (Num x) = False"
| "categorical v = True"

definition categorical_cells :: "frame \<Rightarrow> bool" where
  "categorical_cells df \<longleftrightarrow>
     list_all (\<lambda>r. list_all (\<lambda>c. categorical (cell_at (columns df) r c)) categorical_columns)
       (rows df)"

text \<open>
  A batch of the service's schema: a frame, of any number of records, that has the seven
  categorical columns, holding categorical values, and the column \<^verbatim>\<open>TransactionAmt\<close>,
  holding numbers (or missing numbers).
\<close>

definition schema_batch :: "frame \<Rightarrow> bool" where
  "schema_batch df \<longleftrightarrow>
     set categorical_columns \<subseteq> set (columns df) \<and>
     ''TransactionAmt'' \<in> set (columns df) \<and>
     categorical_cells df \<and>
     list_all (\<lambda>r. numeric (cell_at (columns df) r ''TransactionAmt'')) (rows df)"

text \<open>A batch of the schema that has a record to process.\<close>

definition valid_batch :: "frame \<Rightarrow> bool" where
  "valid_batch df \<longleftrightarrow> schema_batch df \<and> rows df \<noteq> []"

section \<open>The model registry\<close>

text \<open>
  Modelled from the spec: the model store behind \<^verbatim>\<open>bentoml.sklearn.save_model\<close>,
  \<^verbatim>\<open>bentoml.models.get\<close> and \<^verbatim>\<open>bentoml.sklearn.get\<close> is BentoML's and not in the repository,
  which only calls it (lines 257--269 and 297--300).  The definitions of this section
  follow sections 3 and 4.1 of the specification.
\<close>

record model_signature =
  batchable :: bool
  batch_dim :: int

record artifact =
  predictor :: classifier
  preprocessor :: encoder
  labels :: "(string \<times> string) list"
  metadata :: "(string \<times> string) list"
  custom_objects :: "(string \<times> encoder) list"
  signature :: model_signature

datatype tag = Latest | Version nat

text \<open>
  Modelled from the spec: the state of the store (BentoML's, not in the repository):
  whether it can be reached, the batching modes it supports (the specification names none),
  and the artifacts written so far, oldest first.  A version is never rewritten: \<open>save\<close>
  only appends.
\<close>

record registry =
  reachable :: bool
  supported :: "model_signature \<Rightarrow> bool"
  entries :: "(string \<times> artifact) list"

definition versions_of :: "registry \<Rightarrow> string \<Rightarrow> artifact list" where
  "versions_of reg name = map snd (filter (\<lambda>e. fst e = name) (entries reg))"

text \<open>
  Modelled from the spec: \<open>save\<close> of section 4.1, for BentoML's \<^verbatim>\<open>save_model\<close>, which is not in
  the repository.  A new version of \<open>name\<close>, tagged with the number of versions \<open>name\<close> had;
  \<open>StorageError\<close> when the store is unreachable, \<open>ValidationError\<close> when the name is empty
  or the signature's batching mode is unsupported.  It returns the handle and the store.
\<close>

definition save :: "registry \<Rightarrow> string \<Rightarrow> artifact \<Rightarrow> error + ((string \<times> tag) \<times> registry)" where
  "save reg name a =
     (if \<not> reachable reg then Inl StorageError
      else if name = [] \<or> \<not> supported reg (signature a) then Inl ValidationError
      else Inr ((name, Version (length (versions_of reg name))),
                reg\<lparr>entries := entries reg @ [(name, a)]\<rparr>))"

text \<open>
  Modelled from the spec: \<open>load\<close> of section 4.1, for BentoML's \<^verbatim>\<open>get\<close>, which is not in the
  repository.  The version a tag names, \<open>Latest\<close> being the most recently written one;
  \<open>NotFoundError\<close> when there is none.
\<close>

definition load :: "registry \<Rightarrow> string \<Rightarrow> tag \<Rightarrow> error + artifact" where
  "load reg name t =
     (let vs = versions_of reg name
      in case t of
           Latest \<Rightarrow> (if vs = [] then Inl NotFoundError else Inr (last vs))
         | Version k \<Rightarrow> (if k < length vs then Inr (vs ! k) else Inl NotFoundError))"

text \<open>
  Lines 257--269: the call of the walkthrough, which hands the encoder over as the custom
  object \<^verbatim>\<open>ohe_encoder\<close>.
\<close>

definition saved_model ::
  "registry \<Rightarrow> classifier \<Rightarrow> encoder \<Rightarrow> error + ((string \<times> tag) \<times> registry)" where
  "saved_model reg model enc =
     save reg ''fraud_classifier''
       \<lparr>predictor = model, preprocessor = enc,
        labels = [(''owner'', ''Cerebrium''), (''stage'', ''prod'')],
        metadata = [(''version'', ''1.0.0'')],
        custom_objects = [(''ohe_encoder'', enc)],
        signature = \<lparr>batchable = True, batch_dim = 0\<rparr>\<rparr>"

section \<open>The service\<close>

text \<open>
  A request: its method, its path, and its body, a JSON array of records, as the frame
  which the input adapter \<^verbatim>\<open>PandasDataFrame()\<close> of line 305 makes of it and hands to
  \<^verbatim>\<open>predict\<close>.
\<close>

datatype http_method = GET | POST

record request =
  http_method :: http_method
  path :: string
  body :: frame

text \<open>
  Modelled from the spec: the server that owns the loaded objects and calls \<^verbatim>\<open>predict\<close> is
  BentoML's and not in the repository.  Section 4.2 gives its states; by sections 4.2 and 7
  an error of a request is returned to the caller and leaves the service serving, and a
  service that has not loaded its objects refuses every request.
\<close>

datatype svc_state = Unstarted | Loading | Ready encoder classifier | ShuttingDown | Stopped

text \<open>
  Lines 297--302: the service file gets \<^verbatim>\<open>fraud_classifier:latest\<close> for its custom object
  \<^verbatim>\<open>ohe_encoder\<close>, and gets it again for the classifier behind the runner.  By section 4.2 of
  the specification a failed load leaves the service stopped.
\<close>

definition startup :: "registry \<Rightarrow> svc_state" where
  "startup reg =
     (case load reg ''fraud_classifier'' Latest of
        Inl e \<Rightarrow> Stopped
      | Inr a \<Rightarrow>
          (case map_of (custom_objects a) ''ohe_encoder'' of
             None \<Rightarrow> Stopped
           | Some ohe_encoder \<Rightarrow>
               (case load reg ''fraud_classifier'' Latest of
                  Inl e \<Rightarrow> Stopped
                | Inr b \<Rightarrow> Ready ohe_encoder (predictor b))))"

text \<open>
  Modelled from the spec: the handling of one request by BentoML's server, which is not in
  the repository.  By line 305 the service has one API, \<^verbatim>\<open>predict\<close>, on the route
  \<^verbatim>\<open>/fraud-classifier\<close>, answering a \<^verbatim>\<open>POST\<close>, and \<^verbatim>\<open>JSON()\<close> writes the labels as a JSON
  array of integers.  The result is the response and the state the service is left in.
\<close>

definition serve :: "svc_state \<Rightarrow> request \<Rightarrow> (error + int list) \<times> svc_state" where
  "serve s req =
     (case s of
        Ready ohe_encoder clf \<Rightarrow>
          (if http_method req = POST \<and> path req = ''/fraud-classifier''
           then predict ohe_encoder clf (body req)
           else Inl RouteNotFound,
           Ready ohe_encoder clf)
      | _ \<Rightarrow> (Inl UnavailableError, s))"

section \<open>Concrete objects\<close>

text \<open>
  The frame of the walkthrough's request body (lines 357--367): one record, the keys in
  the order of the body; its \<^verbatim>\<open>null\<close> is the only cell of its column, a float \<^verbatim>\<open>nan\<close>.
  With it a small encoder and classifier to evaluate the definitions on.  The classifier
  stands in for the trained one: it calls a transaction fraudulent when its amount exceeds
  100.
\<close>

definition example_request :: frame where
  "example_request =
     \<lparr>columns = [''isFraud'', ''TransactionAmt'', ''ProductCD'', ''card4'', ''P_emaildomain'',
                 ''R_emaildomain'', ''M1'', ''M2'', ''M3''],
      rows = [[Num 0, Num 495, Str ''W'', Str ''visa'', Str ''live.com'', NaN,
               Str ''T'', Str ''T'', Str ''T'']]\<rparr>"

definition example_encoder :: encoder where
  "example_encoder =
     \<lparr>handle_unknown = Ignore,
      feature_names_in = categorical_columns,
      categories =
        [[Cat ''C'', Cat ''W''],
         [Cat ''gmail.com'', Cat ''live.com'', CatNaN],
         [Cat ''gmail.com'', CatNaN],
         [Cat ''mastercard'', Cat ''visa''],
         [Cat ''F'', Cat ''T'', CatNaN],
         [Cat ''F'', Cat ''T'', CatNaN],
         [Cat ''F'', Cat ''T'', CatNaN]]\<rparr>"

definition example_classifier :: classifier where
  "example_classifier =
     \<lparr>predict_proba = (\<lambda>r. case last r of Num x \<Rightarrow> if x > 100 then 9 / 10 else 1 / 10
                                        | _ \<Rightarrow> 1 / 10)\<rparr>"

text \<open>
  Further frames.  A batch of two records whose \<^verbatim>\<open>R_emaildomain\<close> column holds a string and
  a float \<^verbatim>\<open>nan\<close>, as a column of the training file does, and the same batch in the other
  order.  The walkthrough's frame with another column, another column order and another
  \<^verbatim>\<open>isFraud\<close>, and the walkthrough's frame without \<^verbatim>\<open>TransactionAmt\<close>.  A record without a
  missing value.  A record whose \<^verbatim>\<open>ProductCD\<close> is the number 5, which is how the adapter
  delivers the string \<^verbatim>\<open>"5"\<close>.  The batch of the schema without a record.
\<close>

definition two_records :: frame where
  "two_records =
     \<lparr>columns = [''TransactionAmt'', ''ProductCD'', ''card4'', ''P_emaildomain'',
                 ''R_emaildomain'', ''M1'', ''M2'', ''M3''],
      rows = [[Num 495, Str ''W'', Str ''visa'', Str ''live.com'', Str ''gmail.com'',
               Str ''T'', Str ''T'', Str ''T''],
              [Num 20, Str ''C'', Str ''mastercard'', Str ''gmail.com'', NaN,
               Str ''F'', Str ''T'', Str ''F'']]\<rparr>"

definition two_records_swapped :: frame where
  "two_records_swapped = two_records\<lparr>rows := rev (rows two_records)\<rparr>"

definition relabelled_request :: frame where
  "relabelled_request =
     \<lparr>columns = [''note'', ''M3'', ''M2'', ''M1'', ''R_emaildomain'', ''P_emaildomain'', ''card4'',
                 ''ProductCD'', ''TransactionAmt'', ''isFraud''],
      rows = [[Str ''retry'', Str ''T'', Str ''T'', Str ''T'', NaN, Str ''live.com'', Str ''visa'',
               Str ''W'', Num 495, Num 1]]\<rparr>"

definition request_without_amount :: frame where
  "request_without_amount =
     \<lparr>columns = [''isFraud'', ''ProductCD'', ''card4'', ''P_emaildomain'',
                 ''R_emaildomain'', ''M1'', ''M2'', ''M3''],
      rows = [[Num 0, Str ''W'', Str ''visa'', Str ''live.com'', NaN,
               Str ''T'', Str ''T'', Str ''T'']]\<rparr>"


definition numeric_category_request :: frame where
  "numeric_category_request =
     \<lparr>columns = [''TransactionAmt'', ''ProductCD'', ''card4'', ''P_emaildomain'',
                 ''R_emaildomain'', ''M1'', ''M2'', ''M3''],
      rows = [[Num 20, Num 5, Str ''visa'', Str ''live.com'', Str ''gmail.com'',
               Str ''T'', Str ''F'', Str ''T'']]\<rparr>"

definition empty_batch :: frame where
  "empty_batch = \<lparr>columns = categorical_columns @ [''TransactionAmt''], rows = []\<rparr>"

definition empty_registry :: registry where
  "empty_registry = \<lparr>reachable = True, supported = (\<lambda>s. True), entries = []\<rparr>"

section \<open>Properties of the building blocks\<close>

lemma and_then_Inr_iff:
  "and_then m f = Inr y \<longleftrightarrow> (\<exists>x. m = Inr x \<and> f x = Inr y)"
  by (cases m) auto

lemma getitem_present:
  "set names \<subseteq> set (columns df) \<Longrightarrow>
   getitem df names =
     Inr \<lparr>columns = names, rows = map (\<lambda>r. map (cell_at (columns df) r) names) (rows df)\<rparr>"
  by (auto simp: getitem_def Let_def filter_empty_conv)

lemma getitem_absent:
  "\<not> set names \<subseteq> set (columns df) \<Longrightarrow>
   getitem df names = Inl (KeyError (filter (\<lambda>c. c \<notin> set (columns df)) names))"
  by (auto simp: getitem_def Let_def filter_empty_conv)

lemma length_onehot [simp]: "length (onehot cats v) = length cats"
  by (simp add: onehot_def)

lemma length_encode_row:
  "length r = length catss \<Longrightarrow> length (encode_row catss r) = sum_list (map length catss)"
  unfolding encode_row_def
  by (induction r catss rule: list_induct2) auto

lemma length_names_aux:
  "length ns = length catss \<Longrightarrow>
   length (concat (map2 (\<lambda>n cats. map (\<lambda>c. n @ ''_'' @ category_str c) cats) ns catss))
     = sum_list (map length catss)"
  by (induction ns catss rule: list_induct2) auto

lemma length_feature_names:
  "length (feature_names_in enc) = length (categories enc) \<Longrightarrow>
   length (get_feature_names_out enc) = sum_list (map length (categories enc))"
  unfolding get_feature_names_out_def by (rule length_names_aux)

lemma underscore_in_feature_name:
  "n \<in> set (get_feature_names_out enc) \<Longrightarrow> CHR ''_'' \<in> set n"
  by (auto simp: get_feature_names_out_def dest!: set_zip_leftD in_set_zipE)

lemma TransactionAmt_not_feature_name:
  "''TransactionAmt'' \<notin> set (get_feature_names_out enc)"
  using underscore_in_feature_name [of "''TransactionAmt''" enc] by auto

lemma numeric_onehot: "list_all numeric (onehot cats v)"
  by (induction cats) (simp_all add: onehot_def)

lemma numeric_encode_row: "list_all numeric (encode_row catss r)"
  by (auto simp: encode_row_def list_all_iff numeric_onehot[unfolded list_all_iff] elim!: in_set_zipE)

section \<open>The errors of the encoder\<close>

lemma column_error_kind:
  "column_error policy cats col = Some e \<Longrightarrow> e = ValueError \<or> e = TypeError"
  by (auto simp: column_error_def split: if_splits)

lemma column_error_Ignore:
  "column_error Ignore cats col =
     (if numeric_dtype col \<and> list_ex string_category cats then Some TypeError else None)"
  by (simp add: column_error_def)

lemma first_error_kind:
  "first_error policy catss rs = Some e \<Longrightarrow> e = ValueError \<or> e = TypeError"
  by (induction catss arbitrary: rs) (auto split: option.splits dest: column_error_kind)

lemma first_cells_selected:
  "map first_cell (map (\<lambda>r. f r # h r) rs) = map f rs"
  "map tl (map (\<lambda>r. f r # h r) rs) = map h rs"
  by (simp_all add: comp_def)

lemma first_error_None:
  assumes "length catss = length names"
    and "\<forall>(cats, c) \<in> set (zip catss names). column_error policy cats (map (\<lambda>r. g r c) rs) = None"
  shows "first_error policy catss (map (\<lambda>r. map (g r) names) rs) = None"
  using assms
  by (induction catss names rule: list_induct2) (simp_all add: first_cells_selected del: map_map)

lemma first_error_Ignore_TypeError:
  assumes "length catss = length names" and "i < length names"
    and "numeric_dtype (map (\<lambda>r. g r (names ! i)) rs)"
    and "list_ex string_category (catss ! i)"
  shows "first_error Ignore catss (map (\<lambda>r. map (g r) names) rs) = Some TypeError"
  using assms
proof (induction catss names arbitrary: i rule: list_induct2)
  case Nil
  then show ?case by simp
next
  case (Cons cats catss c cs)
  show ?case
  proof (cases i)
    case 0
    with Cons.prems show ?thesis
      by (simp add: first_cells_selected column_error_Ignore del: map_map)
  next
    case (Suc j)
    with Cons.prems Cons.IH [of j]
    have "first_error Ignore catss (map (\<lambda>r. map (g r) cs) rs) = Some TypeError" by simp
    then show ?thesis
      by (simp add: first_cells_selected column_error_Ignore del: map_map)
  qed
qed

lemma transform_ok:
  "length (columns X) = length (categories enc) \<Longrightarrow> rows X \<noteq> [] \<Longrightarrow>
   first_error (handle_unknown enc) (categories enc) (rows X) = None \<Longrightarrow>
   transform enc X = Inr (map (encode_row (categories enc)) (rows X))"
  by (simp add: transform_def)

lemma transform_error: "transform enc X = Inl e \<Longrightarrow> e = ValueError \<or> e = TypeError"
  by (auto simp: transform_def split: if_splits option.splits dest: first_error_kind)

lemma filled_categorical_not_float: "categorical v \<Longrightarrow> \<not> float_cell (fill_cell v)"
  by (cases v) auto

lemma filled_column_object:
  assumes "rs \<noteq> []" and "\<forall>r \<in> set rs. categorical (g r)"
  shows "\<not> numeric_dtype (map (\<lambda>r. fill_cell (g r)) rs)"
proof -
  from assms(1) obtain r where "r \<in> set rs" by (cases rs) auto
  with assms(2) have "\<not> float_cell (fill_cell (g r))" by (simp add: filled_categorical_not_float)
  with \<open>r \<in> set rs\<close> show ?thesis by (auto simp: numeric_dtype_def list_all_iff)
qed

lemma fill_cell_not_NaN: "fill_cell v \<noteq> NaN"
  by (cases v) auto

lemma fill_cell_not_PyNone: "fill_cell v \<noteq> PyNone"
  by (cases v) auto

lemma not_known_fill: "\<not> known cats v \<Longrightarrow> \<not> known cats (fill_cell v)"
  by (cases v) (auto simp: known_def list_ex_iff elim: is_category.elims)

lemma onehot_unknown: "\<not> known cats v \<Longrightarrow> onehot cats v = replicate (length cats) (Num 0)"
  by (induction cats) (auto simp: onehot_def known_def)

section \<open>The matrix handed to the classifier\<close>

lemma DataFrame_ok:
  "\<forall>r \<in> set data. length r = length names \<Longrightarrow>
   DataFrame data names = Inr \<lparr>columns = names, rows = data\<rparr>"
  by (simp add: DataFrame_def list_all_iff)

lemma setitem_append:
  assumes "name \<notin> set (columns X)"
  shows "setitem X name (map (\<lambda>r. [g r]) rs) =
     (if length rs = length (rows X)
      then Inr \<lparr>columns = columns X @ [name],
                rows = map2 (\<lambda>r v. r @ [v]) (rows X) (map g rs)\<rparr>
      else Inl ValueError)"
proof -
  have "concat (map (\<lambda>r. [g r]) rs) = map g rs" by (induction rs) auto
  with assms show ?thesis by (simp add: setitem_def)
qed

lemma map2_same: "map2 h (map f xs) (map g xs) = map (\<lambda>x. h (f x) (g x)) xs"
  by (induction xs) auto

lemma assemble_rows:
  assumes names: "set categorical_columns \<subseteq> set (columns df)"
    and amt: "''TransactionAmt'' \<in> set (columns df)"
    and enc: "length (categories enc) = length categorical_columns"
      "length (feature_names_in enc) = length (categories enc)"
    and tr: "transform enc (pre \<lparr>columns = categorical_columns,
               rows = map (\<lambda>r. map (cell_at (columns df) r) categorical_columns) (rows df)\<rparr>)
             = Inr (map (\<lambda>r. encode_row (categories enc) (map (\<lambda>c. f (cell_at (columns df) r c)) categorical_columns)) (rows df))"
  shows "and_then (getitem df categorical_columns) (\<lambda>X.
     and_then (transform enc (pre X)) (\<lambda>M.
     and_then (DataFrame M (get_feature_names_out enc)) (\<lambda>X.
     and_then (getitem df [''TransactionAmt'']) (\<lambda>amt.
     setitem X ''TransactionAmt'' (to_numpy amt)))))
   = Inr \<lparr>columns = get_feature_names_out enc @ [''TransactionAmt''],
          rows = map (\<lambda>r. encode_row (categories enc) (map (\<lambda>c. f (cell_at (columns df) r c)) categorical_columns)
                    @ [cell_at (columns df) r ''TransactionAmt'']) (rows df)\<rparr>"
proof -
  let ?M = "map (\<lambda>r. encode_row (categories enc) (map (\<lambda>c. f (cell_at (columns df) r c)) categorical_columns)) (rows df)"
  have w: "\<forall>r \<in> set ?M. length r = length (get_feature_names_out enc)"
    using enc by (auto simp: length_encode_row length_feature_names)
  have g2: "getitem df [''TransactionAmt''] =
      Inr \<lparr>columns = [''TransactionAmt''], rows = map (\<lambda>r. [cell_at (columns df) r ''TransactionAmt'']) (rows df)\<rparr>"
    using amt by (simp add: getitem_present)
  show ?thesis
    by (simp add: getitem_present [OF names] tr DataFrame_ok [OF w] g2 to_numpy_def
        setitem_append TransactionAmt_not_feature_name map2_same del: map_map)
qed

text \<open>
  The encoder accepts the selected, filled categorical frame of a batch with a record
  whose categorical cells are categorical values: no column of it is numeric.
\<close>

lemma transform_filled:
  assumes ig: "handle_unknown enc = Ignore"
    and l1: "length (categories enc) = length categorical_columns"
    and ne: "rows df \<noteq> []" and cat: "categorical_cells df"
  shows "transform enc (fillna \<lparr>columns = categorical_columns,
               rows = map (\<lambda>r. map (cell_at (columns df) r) categorical_columns) (rows df)\<rparr>)
      = Inr (map (\<lambda>r. encode_row (categories enc)
                  (map (\<lambda>c. fill_cell (cell_at (columns df) r c)) categorical_columns)) (rows df))"
proof -
  have obj: "column_error Ignore cats
               (map (\<lambda>r. fill_cell (cell_at (columns df) r c)) (rows df)) = None"
    if "c \<in> set categorical_columns" for cats c
  proof -
    have "\<forall>r \<in> set (rows df). categorical (cell_at (columns df) r c)"
      using cat that by (auto simp: categorical_cells_def list_all_iff)
    from filled_column_object [OF ne this] show ?thesis by (simp add: column_error_Ignore)
  qed
  have "first_error Ignore (categories enc)
          (map (\<lambda>r. map (\<lambda>c. fill_cell (cell_at (columns df) r c)) categorical_columns) (rows df))
        = None"
    using l1 obj by (intro first_error_None) (auto dest: set_zip_rightD)
  then show ?thesis
    using ig l1 ne by (simp add: transform_def fillna_def comp_def)
qed

lemma serve_features_valid:
  assumes "service_encoder enc" "valid_batch df"
  shows "serve_features enc df =
     Inr \<lparr>columns = get_feature_names_out enc @ [''TransactionAmt''],
          rows = map (row_features enc (columns df)) (rows df)\<rparr>"
proof -
  from assms have names: "set categorical_columns \<subseteq> set (columns df)"
    and amt: "''TransactionAmt'' \<in> set (columns df)"
    and ne: "rows df \<noteq> []" and cat: "categorical_cells df"
    and ig: "handle_unknown enc = Ignore"
    and l1: "length (categories enc) = length categorical_columns"
    and l2: "length (feature_names_in enc) = length (categories enc)"
    by (simp_all add: service_encoder_def valid_batch_def schema_batch_def)
  show ?thesis
    unfolding serve_features_def row_features_def
    by (rule assemble_rows [where pre = fillna and f = fill_cell, OF names amt l1 l2
          transform_filled [OF ig l1 ne cat]])
qed

lemma run_numeric:
  "\<forall>r \<in> set (rows X). list_all numeric r \<Longrightarrow> run clf X = Inr (map (xgb_predict clf) (rows X))"
  by (simp add: run_def list_all_iff)

lemma predict_valid:
  assumes "service_encoder enc" "valid_batch df"
  shows "predict enc clf df = Inr (map (\<lambda>r. xgb_predict clf (row_features enc (columns df) r)) (rows df))"
proof -
  have "\<forall>r \<in> set (rows df). list_all numeric (row_features enc (columns df) r)"
    using assms(2) numeric_encode_row
    by (simp add: valid_batch_def schema_batch_def row_features_def list_all_iff)
  then show ?thesis
    by (simp add: predict_def serve_features_valid [OF assms] run_numeric comp_def)
qed


section \<open>Errors and layout\<close>

lemma xgb_predict_binary: "xgb_predict clf r = 0 \<or> xgb_predict clf r = 1"
  by (simp add: xgb_predict_def)

lemma run_binary: "run clf X = Inr out \<Longrightarrow> \<forall>l \<in> set out. l = 0 \<or> l = 1"
  by (auto simp: run_def xgb_predict_def split: if_splits)

lemma predict_binary: "predict enc clf df = Inr out \<Longrightarrow> \<forall>l \<in> set out. l = 0 \<or> l = 1"
  unfolding predict_def and_then_Inr_iff using run_binary by blast

lemma getitem_cong:
  assumes len: "length (rows d1) = length (rows d2)"
    and cols: "\<forall>c \<in> set names. (c \<in> set (columns d1)) = (c \<in> set (columns d2))"
    and cells: "\<forall>i < length (rows d1). \<forall>c \<in> set names.
                  cell_at (columns d1) (rows d1 ! i) c = cell_at (columns d2) (rows d2 ! i) c"
  shows "getitem d1 names = getitem d2 names"
proof -
  have m: "filter (\<lambda>c. c \<notin> set (columns d1)) names = filter (\<lambda>c. c \<notin> set (columns d2)) names"
    using cols by (intro filter_cong) auto
  have r: "map (\<lambda>r. map (cell_at (columns d1) r) names) (rows d1)
         = map (\<lambda>r. map (cell_at (columns d2) r) names) (rows d2)"
    using len cells by (intro nth_equalityI) auto
  show ?thesis unfolding getitem_def m r ..
qed

lemma DataFrame_error: "DataFrame data names = Inl e \<Longrightarrow> e = ValueError"
  by (auto simp: DataFrame_def split: if_splits)

lemma serve_features_without_amount:
  assumes c: "set categorical_columns \<subseteq> set (columns df)"
    and a: "''TransactionAmt'' \<notin> set (columns df)"
  shows "serve_features enc df = Inl ValueError \<or> serve_features enc df = Inl TypeError \<or>
         serve_features enc df = Inl (KeyError [''TransactionAmt''])"
proof -
  have g: "getitem df [''TransactionAmt''] = Inl (KeyError [''TransactionAmt''])"
    using a by (simp add: getitem_def)
  let ?Xc = "\<lparr>columns = categorical_columns,
               rows = map (\<lambda>r. map (cell_at (columns df) r) categorical_columns) (rows df)\<rparr>"
  show ?thesis
  proof (cases "transform enc (fillna ?Xc)")
    case (Inl e)
    then show ?thesis
      using transform_error [OF Inl] by (auto simp: serve_features_def getitem_present [OF c])
  next
    case (Inr M)
    show ?thesis
    proof (cases "DataFrame M (get_feature_names_out enc)")
      case (Inl e)
      then show ?thesis
        using DataFrame_error [OF Inl] by (simp add: serve_features_def getitem_present [OF c] Inr)
    next
      case (Inr X)
      then show ?thesis
        by (simp add: serve_features_def getitem_present [OF c] \<open>transform enc (fillna ?Xc) = Inr M\<close> g)
    qed
  qed
qed

lemma serve_features_without_amount_valid:
  assumes c: "set categorical_columns \<subseteq> set (columns df)"
    and a: "''TransactionAmt'' \<notin> set (columns df)"
    and e: "service_encoder enc" and n: "rows df \<noteq> []" and cat: "categorical_cells df"
  shows "serve_features enc df = Inl (KeyError [''TransactionAmt''])"
proof -
  have g: "getitem df [''TransactionAmt''] = Inl (KeyError [''TransactionAmt''])"
    using a by (simp add: getitem_def)
  from e have ig: "handle_unknown enc = Ignore"
    and l1: "length (categories enc) = length categorical_columns"
    and l2: "length (feature_names_in enc) = length (categories enc)"
    by (simp_all add: service_encoder_def)
  let ?M = "map (\<lambda>r. encode_row (categories enc)
                  (map (\<lambda>c. fill_cell (cell_at (columns df) r c)) categorical_columns)) (rows df)"
  have w: "\<forall>r \<in> set ?M. length r = length (get_feature_names_out enc)"
    using l1 l2 by (auto simp: length_encode_row length_feature_names)
  show ?thesis
    by (simp add: serve_features_def getitem_present [OF c] transform_filled [OF ig l1 n cat]
        DataFrame_ok [OF w] g)
qed






text \<open>
  A categorical column of numbers only, against fitted string categories: the encoder
  raises, whatever \<^verbatim>\<open>handle_unknown\<close> says about unknown categories.
\<close>

lemma transform_numeric_column:
  assumes ig: "handle_unknown enc = Ignore"
    and l1: "length (categories enc) = length categorical_columns"
    and ne: "rows df \<noteq> []"
    and i: "i < length categorical_columns"
    and str: "list_ex string_category (categories enc ! i)"
    and num: "\<forall>r \<in> set (rows df). \<exists>x. cell_at (columns df) r (categorical_columns ! i) = Num x"
  shows "transform enc (fillna \<lparr>columns = categorical_columns,
               rows = map (\<lambda>r. map (cell_at (columns df) r) categorical_columns) (rows df)\<rparr>)
      = Inl TypeError"
proof -
  have "numeric_dtype (map (\<lambda>r. fill_cell (cell_at (columns df) r (categorical_columns ! i)))
          (rows df))"
    using num by (auto simp: numeric_dtype_def list_all_iff)
  from first_error_Ignore_TypeError
         [where g = "\<lambda>r c. fill_cell (cell_at (columns df) r c)", OF l1 i this str]
  show ?thesis using ig l1 ne by (simp add: transform_def fillna_def comp_def)
qed

section \<open>The concrete frames, evaluated\<close>

lemma example_encoder_ok: "service_encoder example_encoder"
  by (simp add: service_encoder_def example_encoder_def categorical_columns_def)

lemma example_valid: "valid_batch example_request"
  by (simp add: valid_batch_def schema_batch_def categorical_cells_def categorical_columns_def
      cell_at_def example_request_def)

lemma example_row_features:
  "row_features example_encoder (columns example_request)
     [Num 0, Num 495, Str ''W'', Str ''visa'', Str ''live.com'', NaN,
      Str ''T'', Str ''T'', Str ''T'']
   = [Num 0, Num 1, Num 0, Num 1, Num 0, Num 0, Num 0, Num 0, Num 1,
      Num 0, Num 1, Num 0, Num 0, Num 1, Num 0, Num 0, Num 1, Num 0, Num 495]"
  by (simp add: row_features_def example_encoder_def categorical_columns_def cell_at_def
      encode_row_def onehot_def example_request_def)

lemma two_records_valid: "valid_batch two_records"
  by (simp add: valid_batch_def schema_batch_def categorical_cells_def categorical_columns_def
      cell_at_def two_records_def)

lemma two_records_swapped_valid: "valid_batch two_records_swapped"
  by (simp add: valid_batch_def schema_batch_def categorical_cells_def categorical_columns_def
      cell_at_def two_records_def two_records_swapped_def)

lemma two_records_features:
  "row_features example_encoder (columns two_records)
     [Num 495, Str ''W'', Str ''visa'', Str ''live.com'', Str ''gmail.com'',
      Str ''T'', Str ''T'', Str ''T'']
   = [Num 0, Num 1, Num 0, Num 1, Num 0, Num 1, Num 0, Num 0, Num 1,
      Num 0, Num 1, Num 0, Num 0, Num 1, Num 0, Num 0, Num 1, Num 0, Num 495]"
  "row_features example_encoder (columns two_records)
     [Num 20, Str ''C'', Str ''mastercard'', Str ''gmail.com'', NaN,
      Str ''F'', Str ''T'', Str ''F'']
   = [Num 1, Num 0, Num 1, Num 0, Num 0, Num 0, Num 0, Num 1, Num 0,
      Num 1, Num 0, Num 0, Num 0, Num 1, Num 0, Num 1, Num 0, Num 0, Num 20]"
  by (simp_all add: row_features_def example_encoder_def categorical_columns_def cell_at_def
      encode_row_def onehot_def two_records_def)

lemma two_records_labels:
  "xgb_predict example_classifier
     [Num 0, Num 1, Num 0, Num 1, Num 0, Num 1, Num 0, Num 0, Num 1,
      Num 0, Num 1, Num 0, Num 0, Num 1, Num 0, Num 0, Num 1, Num 0, Num 495] = 1"
  "xgb_predict example_classifier
     [Num 1, Num 0, Num 1, Num 0, Num 0, Num 0, Num 0, Num 1, Num 0,
      Num 1, Num 0, Num 0, Num 0, Num 1, Num 0, Num 1, Num 0, Num 0, Num 20] = 0"
  by (simp_all add: xgb_predict_def example_classifier_def)




lemma empty_batch_schema: "schema_batch empty_batch"
  by (auto simp: schema_batch_def categorical_cells_def empty_batch_def)

text \<open>
  The training construction on the walkthrough's frame: its \<^verbatim>\<open>R_emaildomain\<close> column is
  numeric, a float \<^verbatim>\<open>nan\<close> only, and without \<^verbatim>\<open>fillna\<close> the encoder raises.
\<close>

lemma training_raises_on_all_null_column:
  "train_features example_encoder example_request = Inl TypeError"
  by (simp add: train_features_def getitem_def example_request_def categorical_columns_def
      transform_def example_encoder_def cell_at_def column_error_def numeric_dtype_def)

section \<open>Properties of the registry\<close>

lemma save_Inr:
  assumes "save reg n a = Inr (h, reg')"
  shows "h = (n, Version (length (versions_of reg n)))"
    and "versions_of reg' m = (if m = n then versions_of reg n @ [a] else versions_of reg m)"
  using assms by (auto simp: save_def versions_of_def split: if_splits)

lemma load_latest_after_save:
  "save reg n a = Inr (h, reg') \<Longrightarrow> load reg' n Latest = Inr a"
  by (simp add: load_def save_Inr(2))

lemma load_latest_other_name:
  "save reg n a = Inr (h, reg') \<Longrightarrow> m \<noteq> n \<Longrightarrow> load reg' m Latest = load reg m Latest"
  by (simp add: load_def save_Inr(2))

lemma load_handle_after_save:
  assumes "save reg n a = Inr (h, reg')"
  shows "load reg' n (snd h) = Inr a"
  using save_Inr(1) [OF assms] by (simp add: load_def save_Inr(2) [OF assms])

lemma load_version_preserved:
  "save reg n a = Inr (h, reg') \<Longrightarrow> load reg m (Version k) = Inr x \<Longrightarrow>
   load reg' m (Version k) = Inr x"
  by (auto simp: load_def save_Inr(2) nth_append split: if_splits)

section \<open>The inference service\<close>

text \<open>
  C1.  The claim speaks of every valid batch, and the batch of the schema without a record
  is one.  On it \<^verbatim>\<open>predict\<close> does not return the empty list of labels: the encoder refuses
  a frame without rows.
\<close>

theorem empty_batch_counterexample:
  "service_encoder example_encoder \<and> schema_batch empty_batch \<and> length (rows empty_batch) = 0 \<and>
   predict example_encoder example_classifier empty_batch = Inl ValueError"
proof -
  have "set categorical_columns \<subseteq> set (columns empty_batch)"
    by (auto simp: empty_batch_def)
  then have "predict example_encoder example_classifier empty_batch = Inl ValueError"
    by (simp add: predict_def serve_features_def getitem_present transform_def fillna_def
        empty_batch_def)
  with example_encoder_ok empty_batch_schema show ?thesis by (simp add: empty_batch_def)
qed

text \<open>
  C1, as amended.  On every batch of the schema with at least one record \<^verbatim>\<open>predict\<close> returns
  labels, as many as the batch has records, and the label at position \<open>i\<close> is the
  classifier's label of the features of record \<open>i\<close> alone: output order is input order.
\<close>

theorem predict_length_and_order:
  assumes "service_encoder ohe_encoder" and "schema_batch df" and "rows df \<noteq> []"
  shows "\<exists>out. predict ohe_encoder clf df = Inr out \<and> length out = length (rows df) \<and>
           (\<forall>i < length (rows df).
              out ! i = xgb_predict clf (row_features ohe_encoder (columns df) (rows df ! i)))"
proof -
  from assms(2,3) have "valid_batch df" by (simp add: valid_batch_def)
  from predict_valid [OF assms(1) this] show ?thesis by simp
qed

theorem predict_length_and_order_witness:
  "schema_batch two_records \<and> schema_batch two_records_swapped \<and>
   rows two_records_swapped = rev (rows two_records) \<and>
   predict example_encoder example_classifier two_records = Inr [1, 0] \<and>
   predict example_encoder example_classifier two_records_swapped = Inr [0, 1]"
proof -
  have s: "schema_batch two_records" "schema_batch two_records_swapped"
    using two_records_valid two_records_swapped_valid by (simp_all add: valid_batch_def)
  have n: "rows two_records \<noteq> []" "rows two_records_swapped \<noteq> []"
    by (simp_all add: two_records_def two_records_swapped_def)
  have c: "columns two_records_swapped = columns two_records"
    by (simp add: two_records_swapped_def)
  from predict_length_and_order [OF example_encoder_ok s(1) n(1), of example_classifier]
  obtain out where o: "predict example_encoder example_classifier two_records = Inr out"
    and l: "length out = length (rows two_records)"
    and v: "\<forall>i < length (rows two_records).
              out ! i = xgb_predict example_classifier
                (row_features example_encoder (columns two_records) (rows two_records ! i))"
    by blast
  from v have "out ! 0 = 1" "out ! 1 = 0"
    using two_records_features two_records_labels by (simp_all add: two_records_def)
  moreover from l have "length out = 2" by (simp add: two_records_def)
  ultimately have "out = [1, 0]"
    by (cases out; cases "tl out") auto
  with o have a: "predict example_encoder example_classifier two_records = Inr [1, 0]" by simp
  from predict_length_and_order [OF example_encoder_ok s(2) n(2), of example_classifier]
  obtain out' where o': "predict example_encoder example_classifier two_records_swapped = Inr out'"
    and l': "length out' = length (rows two_records_swapped)"
    and v': "\<forall>i < length (rows two_records_swapped).
              out' ! i = xgb_predict example_classifier
                (row_features example_encoder (columns two_records_swapped)
                   (rows two_records_swapped ! i))"
    by blast
  from v' have "out' ! 0 = 0" "out' ! 1 = 1"
    unfolding c using two_records_features two_records_labels
    by (simp_all add: two_records_def two_records_swapped_def)
  moreover from l' have "length out' = 2" by (simp add: two_records_def two_records_swapped_def)
  ultimately have "out' = [0, 1]"
    by (cases out'; cases "tl out'") auto
  with o' have b: "predict example_encoder example_classifier two_records_swapped = Inr [0, 1]"
    by simp
  from s a b show ?thesis by (simp add: two_records_swapped_def)
qed

text \<open>
  C2.  The claim holds of the code for an unseen value that reaches the encoder in an
  object column.  It fails where the column of the field holds numbers only, which is how
  the adapter delivers a batch whose values under the field are numeric strings such as
  \<^verbatim>\<open>"5"\<close>: the encoder then raises \<^verbatim>\<open>TypeError\<close>, and \<^verbatim>\<open>handle_unknown="ignore"\<close> is never
  consulted.  For every encoder of the service with a string category under field \<open>i\<close>
  and every batch with a record whose field \<open>i\<close> holds numbers only, \<^verbatim>\<open>predict\<close> raises.
\<close>

theorem numeric_category_raises_TypeError:
  assumes "service_encoder ohe_encoder"
    and "set categorical_columns \<subseteq> set (columns df)" and "rows df \<noteq> []"
    and "i < length categorical_columns"
    and "list_ex string_category (categories ohe_encoder ! i)"
    and "\<forall>r \<in> set (rows df). \<exists>x. cell_at (columns df) r (categorical_columns ! i) = Num x"
  shows "predict ohe_encoder clf df = Inl TypeError"
proof -
  from assms(1) have ig: "handle_unknown ohe_encoder = Ignore"
    and l1: "length (categories ohe_encoder) = length categorical_columns"
    by (simp_all add: service_encoder_def)
  show ?thesis
    by (simp add: predict_def serve_features_def getitem_present [OF assms(2)]
        transform_numeric_column [OF ig l1 assms(3,4,5,6)])
qed

theorem numeric_category_raises_TypeError_witness:
  "\<not> known (categories example_encoder ! 0) (Num 5) \<and>
   predict example_encoder example_classifier numeric_category_request = Inl TypeError"
proof -
  have c: "set categorical_columns \<subseteq> set (columns numeric_category_request)"
    by (simp add: numeric_category_request_def categorical_columns_def)
  have n: "rows numeric_category_request \<noteq> []" by (simp add: numeric_category_request_def)
  have i: "0 < length categorical_columns" by (simp add: categorical_columns_def)
  have s: "list_ex string_category (categories example_encoder ! 0)"
    by (simp add: example_encoder_def)
  have x: "\<forall>r \<in> set (rows numeric_category_request).
             \<exists>x. cell_at (columns numeric_category_request) r (categorical_columns ! 0) = Num x"
    by (simp add: numeric_category_request_def categorical_columns_def cell_at_def)
  from numeric_category_raises_TypeError [OF example_encoder_ok c n i s x, of example_classifier]
  show ?thesis by (simp add: example_encoder_def known_def)
qed

text \<open>
  What the code does for an unseen value in an object column: the record gets its label,
  the classifier's decision on features in which the block of the unseen value is all
  zeros.
\<close>

lemma unseen_category_zero_block:
  assumes "service_encoder ohe_encoder" and "valid_batch df"
    and "k < length (rows df)" and "i < length categorical_columns"
    and "\<not> known (categories ohe_encoder ! i)
            (cell_at (columns df) (rows df ! k) (categorical_columns ! i))"
  shows "\<exists>out blocks. predict ohe_encoder clf df = Inr out \<and> length out = length (rows df) \<and>
           out ! k = xgb_predict clf
             (concat blocks @ [cell_at (columns df) (rows df ! k) ''TransactionAmt'']) \<and>
           length blocks = length categorical_columns \<and>
           blocks ! i = replicate (length (categories ohe_encoder ! i)) (Num 0)"
proof -
  let ?blocks = "map2 onehot (categories ohe_encoder)
      (map (\<lambda>c. fill_cell (cell_at (columns df) (rows df ! k) c)) categorical_columns)"
  have l: "length (categories ohe_encoder) = length categorical_columns"
    using assms(1) by (simp add: service_encoder_def)
  have z: "?blocks ! i = replicate (length (categories ohe_encoder ! i)) (Num 0)"
    using assms(4) l onehot_unknown [OF not_known_fill [OF assms(5)]] by simp
  have "row_features ohe_encoder (columns df) (rows df ! k)
          = concat ?blocks @ [cell_at (columns df) (rows df ! k) ''TransactionAmt'']"
    by (simp add: row_features_def encode_row_def)
  with z l assms(3) show ?thesis
    by (intro exI [of _ "map (\<lambda>r. xgb_predict clf (row_features ohe_encoder (columns df) r)) (rows df)"]
          exI [of _ ?blocks])
       (simp add: predict_valid [OF assms(1,2)])
qed

text \<open>
  C3.  The claim names \<^verbatim>\<open>ValidationError\<close>; the code validates nothing, and the column
  selection of pandas raises.  On the walkthrough's request without \<^verbatim>\<open>TransactionAmt\<close> the
  error is a \<^verbatim>\<open>KeyError\<close>.
\<close>

theorem missing_TransactionAmt_counterexample:
  "predict example_encoder example_classifier request_without_amount
     = Inl (KeyError [''TransactionAmt'']) \<and>
   predict example_encoder example_classifier request_without_amount
     \<noteq> Inl ValidationError"
proof -
  have "predict example_encoder example_classifier request_without_amount
     = Inl (KeyError [''TransactionAmt''])"
    unfolding predict_def
    by (subst serve_features_without_amount_valid)
       (simp_all add: request_without_amount_def categorical_columns_def example_encoder_ok
          categorical_cells_def cell_at_def)
  then show ?thesis by simp
qed

text \<open>
  C3, as amended.  On a batch that lacks a required column \<^verbatim>\<open>predict\<close> returns no labels but
  an error, which is never \<^verbatim>\<open>ValidationError\<close>: the \<^verbatim>\<open>KeyError\<close> naming the absent categorical
  columns when there is one, and \<^verbatim>\<open>KeyError ['TransactionAmt']\<close> when only that column is
  absent from a non-empty batch.  The error is the response to the caller, and the service
  stays ready.
\<close>

theorem missing_column_raises_KeyError:
  assumes "\<not> set (categorical_columns @ [''TransactionAmt'']) \<subseteq> set (columns df)"
  shows "\<exists>e. predict ohe_encoder clf df = Inl e \<and> e \<noteq> ValidationError \<and>
           (\<not> set categorical_columns \<subseteq> set (columns df) \<longrightarrow>
              e = KeyError (filter (\<lambda>c. c \<notin> set (columns df)) categorical_columns)) \<and>
           (set categorical_columns \<subseteq> set (columns df) \<and> service_encoder ohe_encoder \<and>
              rows df \<noteq> [] \<and> categorical_cells df \<longrightarrow> e = KeyError [''TransactionAmt'']) \<and>
           (\<forall>req. http_method req = POST \<and> path req = ''/fraud-classifier'' \<and>
                  body req = df \<longrightarrow>
                  serve (Ready ohe_encoder clf) req = (Inl e, Ready ohe_encoder clf))"
proof (cases "set categorical_columns \<subseteq> set (columns df)")
  case False
  then have "predict ohe_encoder clf df =
      Inl (KeyError (filter (\<lambda>c. c \<notin> set (columns df)) categorical_columns))"
    by (simp add: predict_def serve_features_def getitem_absent)
  with False show ?thesis by (auto simp: serve_def)
next
  case True
  with assms have a: "''TransactionAmt'' \<notin> set (columns df)" by auto
  from serve_features_without_amount [OF True a, of ohe_encoder]
  obtain e where e: "serve_features ohe_encoder df = Inl e" "e \<noteq> ValidationError"
    by auto
  have "service_encoder ohe_encoder \<and> rows df \<noteq> [] \<and> categorical_cells df
          \<longrightarrow> e = KeyError [''TransactionAmt'']"
    using serve_features_without_amount_valid [OF True a, of ohe_encoder] e(1) by auto
  with e True show ?thesis by (auto simp: predict_def serve_def)
qed

theorem missing_column_raises_KeyError_witness:
  "\<not> set (categorical_columns @ [''TransactionAmt''])
       \<subseteq> set (columns request_without_amount) \<and>
   serve (Ready example_encoder example_classifier)
     \<lparr>http_method = POST, path = ''/fraud-classifier'', body = request_without_amount\<rparr>
     = (Inl (KeyError [''TransactionAmt'']), Ready example_encoder example_classifier)"
proof -
  have h: "\<not> set (categorical_columns @ [''TransactionAmt''])
       \<subseteq> set (columns request_without_amount)"
    by (simp add: request_without_amount_def)
  have c: "set categorical_columns \<subseteq> set (columns request_without_amount)"
    by (simp add: request_without_amount_def categorical_columns_def)
  have n: "rows request_without_amount \<noteq> []"
    by (simp add: request_without_amount_def)
  have t: "categorical_cells request_without_amount"
    by (simp add: request_without_amount_def categorical_cells_def categorical_columns_def
        cell_at_def)
  from missing_column_raises_KeyError [OF h, of example_encoder example_classifier]
  obtain e where
    k: "set categorical_columns \<subseteq> set (columns request_without_amount) \<and>
        service_encoder example_encoder \<and> rows request_without_amount \<noteq> [] \<and>
        categorical_cells request_without_amount
        \<longrightarrow> e = KeyError [''TransactionAmt'']"
    and s: "\<forall>req. http_method req = POST \<and> path req = ''/fraud-classifier'' \<and>
                  body req = request_without_amount \<longrightarrow>
                  serve (Ready example_encoder example_classifier) req
                    = (Inl e, Ready example_encoder example_classifier)"
    by blast
  from k c n t example_encoder_ok have "e = KeyError [''TransactionAmt'']" by blast
  moreover from s have "serve (Ready example_encoder example_classifier)
     \<lparr>http_method = POST, path = ''/fraud-classifier'', body = request_without_amount\<rparr>
     = (Inl e, Ready example_encoder example_classifier)"
    by simp
  ultimately show ?thesis using h by simp
qed

text \<open>
  C7.  On a valid batch \<^verbatim>\<open>predict\<close> (a) selects the categorical columns and replaces their
  missing cells, so that neither \<open>NaN\<close> nor \<open>PyNone\<close> is left, (b) encodes the result into
  rows of one fixed width, that of the encoder's feature names, (c) appends to row \<open>i\<close> the
  \<^verbatim>\<open>TransactionAmt\<close> cell of record \<open>i\<close> as it came, and (d) is the runner's answer on this
  one matrix, which is numeric.
\<close>

theorem predict_processing_order:
  assumes "service_encoder ohe_encoder" and "valid_batch df"
  shows "\<exists>Xc M X.
           getitem df categorical_columns = Inr Xc \<and> columns Xc = categorical_columns \<and>
           (\<forall>r \<in> set (rows (fillna Xc)). NaN \<notin> set r \<and> PyNone \<notin> set r) \<and>
           transform ohe_encoder (fillna Xc) = Inr M \<and>
           serve_features ohe_encoder df = Inr X \<and>
           list_all (list_all numeric) (rows X) \<and>
           predict ohe_encoder clf df = run clf X \<and>
           columns X = get_feature_names_out ohe_encoder @ [''TransactionAmt''] \<and>
           length M = length (rows df) \<and> length (rows X) = length (rows df) \<and>
           (\<forall>i < length (rows df).
              M ! i = encode_row (categories ohe_encoder)
                        (map (\<lambda>c. fill_cell (cell_at (columns df) (rows df ! i) c))
                           categorical_columns) \<and>
              length (M ! i) = length (get_feature_names_out ohe_encoder) \<and>
              rows X ! i = M ! i @ [cell_at (columns df) (rows df ! i) ''TransactionAmt''])"
proof -
  from assms have names: "set categorical_columns \<subseteq> set (columns df)"
    and ne: "rows df \<noteq> []" and cat: "categorical_cells df"
    and ig: "handle_unknown ohe_encoder = Ignore"
    and l1: "length (categories ohe_encoder) = length categorical_columns"
    and l2: "length (feature_names_in ohe_encoder) = length (categories ohe_encoder)"
    by (simp_all add: service_encoder_def valid_batch_def schema_batch_def)
  let ?Xc = "\<lparr>columns = categorical_columns,
               rows = map (\<lambda>r. map (cell_at (columns df) r) categorical_columns) (rows df)\<rparr>"
  let ?M = "map (\<lambda>r. encode_row (categories ohe_encoder)
                  (map (\<lambda>c. fill_cell (cell_at (columns df) r c)) categorical_columns)) (rows df)"
  let ?X = "\<lparr>columns = get_feature_names_out ohe_encoder @ [''TransactionAmt''],
              rows = map (row_features ohe_encoder (columns df)) (rows df)\<rparr>"
  have a: "getitem df categorical_columns = Inr ?Xc" by (rule getitem_present [OF names])
  have b: "\<forall>r \<in> set (rows (fillna ?Xc)). NaN \<notin> set r \<and> PyNone \<notin> set r"
    using fill_cell_not_NaN fill_cell_not_PyNone by (auto simp: fillna_def) metis+
  have c: "transform ohe_encoder (fillna ?Xc) = Inr ?M"
    by (rule transform_filled [OF ig l1 ne cat])
  have d: "serve_features ohe_encoder df = Inr ?X" by (rule serve_features_valid [OF assms])
  have e: "predict ohe_encoder clf df = run clf ?X" by (simp add: predict_def d)
  have f: "\<forall>i < length (rows df).
              ?M ! i = encode_row (categories ohe_encoder)
                        (map (\<lambda>c. fill_cell (cell_at (columns df) (rows df ! i) c))
                           categorical_columns) \<and>
              length (?M ! i) = length (get_feature_names_out ohe_encoder) \<and>
              rows ?X ! i = ?M ! i @ [cell_at (columns df) (rows df ! i) ''TransactionAmt'']"
    using l1 l2 by (simp add: row_features_def length_encode_row length_feature_names)
  have g: "length ?M = length (rows df)" "length (rows ?X) = length (rows df)"
    "columns ?X = get_feature_names_out ohe_encoder @ [''TransactionAmt'']"
    "columns ?Xc = categorical_columns"
    by simp_all
  have h: "list_all (list_all numeric) (rows ?X)"
    using assms(2) numeric_encode_row
    by (simp add: valid_batch_def schema_batch_def row_features_def list_all_iff)
  from a b c d e f g h show ?thesis by blast
qed

theorem predict_processing_order_witness:
  "valid_batch example_request \<and>
   (\<exists>X. serve_features example_encoder example_request = Inr X \<and>
        predict example_encoder example_classifier example_request
          = run example_classifier X \<and>
        rows X = [[Num 0, Num 1, Num 0, Num 1, Num 0, Num 0, Num 0, Num 0, Num 1,
                   Num 0, Num 1, Num 0, Num 0, Num 1, Num 0, Num 0, Num 1, Num 0, Num 495]])"
proof -
  from predict_processing_order [OF example_encoder_ok example_valid, of example_classifier]
  obtain Xc M X where
    s: "serve_features example_encoder example_request = Inr X"
    and p: "predict example_encoder example_classifier example_request
              = run example_classifier X"
    and l: "length (rows X) = length (rows example_request)"
    and r: "\<forall>i < length (rows example_request).
              M ! i = encode_row (categories example_encoder)
                        (map (\<lambda>c. fill_cell (cell_at (columns example_request)
                                      (rows example_request ! i) c))
                           categorical_columns) \<and>
              length (M ! i) = length (get_feature_names_out example_encoder) \<and>
              rows X ! i = M ! i @ [cell_at (columns example_request)
                                      (rows example_request ! i) ''TransactionAmt'']"
    by blast
  have n: "length (rows example_request) = 1"
    and r0: "rows example_request ! 0 = [Num 0, Num 495, Str ''W'', Str ''visa'',
               Str ''live.com'', NaN, Str ''T'', Str ''T'', Str ''T'']"
    by (simp_all add: example_request_def)
  from r n have "rows X ! 0 = row_features example_encoder (columns example_request)
                 (rows example_request ! 0)"
    by (simp add: row_features_def)
  then have "rows X ! 0 = [Num 0, Num 1, Num 0, Num 1, Num 0, Num 0, Num 0, Num 0, Num 1,
                   Num 0, Num 1, Num 0, Num 0, Num 1, Num 0, Num 0, Num 1, Num 0, Num 495]"
    unfolding r0 by (simp add: example_row_features)
  moreover from l n have "length (rows X) = 1" by simp
  ultimately have "rows X = [[Num 0, Num 1, Num 0, Num 1, Num 0, Num 0, Num 0, Num 0, Num 1,
                   Num 0, Num 1, Num 0, Num 0, Num 1, Num 0, Num 0, Num 1, Num 0, Num 495]]"
    by (cases "rows X") auto
  with s p example_valid show ?thesis by blast
qed

text \<open>
  C8.  Whenever the service answers with labels, the request was a \<^verbatim>\<open>POST\<close> on
  \<^verbatim>\<open>/fraud-classifier\<close>, the labels are those of \<^verbatim>\<open>predict\<close> on the records of the body, and
  each label is 0 or 1.
\<close>

theorem service_returns_binary_labels:
  assumes "serve s req = (Inr out, s')"
  shows "http_method req = POST \<and> path req = ''/fraud-classifier'' \<and>
         (\<forall>l \<in> set out. l = 0 \<or> l = 1) \<and>
         (\<exists>ohe_encoder clf. s = Ready ohe_encoder clf \<and> s' = s \<and>
            predict ohe_encoder clf (body req) = Inr out)"
proof (cases s)
  case (Ready ohe_encoder clf)
  with assms have m: "http_method req = POST \<and> path req = ''/fraud-classifier''"
    and p: "predict ohe_encoder clf (body req) = Inr out" and s: "s' = s"
    by (auto simp: serve_def split: if_splits)
  from predict_binary [OF p] m p s Ready show ?thesis by blast
qed (use assms in \<open>auto simp: serve_def\<close>)

theorem service_returns_binary_labels_witness:
  "serve (Ready example_encoder example_classifier)
     \<lparr>http_method = POST, path = ''/fraud-classifier'', body = example_request\<rparr>
     = (Inr [1], Ready example_encoder example_classifier)"
proof -
  have "map (\<lambda>r. xgb_predict example_classifier
               (row_features example_encoder (columns example_request) r))
          (rows example_request) = [1]"
    using example_row_features
    by (simp add: example_request_def xgb_predict_def example_classifier_def)
  then have p: "predict example_encoder example_classifier example_request = Inr [1]"
    by (simp add: predict_valid [OF example_encoder_ok example_valid])
  have s: "serve (Ready example_encoder example_classifier)
     \<lparr>http_method = POST, path = ''/fraud-classifier'', body = example_request\<rparr>
     = (Inr [1], Ready example_encoder example_classifier)"
    by (simp add: serve_def p)
  from service_returns_binary_labels [OF s] s show ?thesis by simp
qed

text \<open>
  C9.  Two batches with equally many records that agree, record by record, on the seven
  categorical fields and on \<^verbatim>\<open>TransactionAmt\<close> get the same answer from \<^verbatim>\<open>predict\<close>,
  whatever else their records hold.
\<close>

theorem extra_fields_ignored:
  assumes len: "length (rows d1) = length (rows d2)"
    and cols: "\<forall>c \<in> set (categorical_columns @ [''TransactionAmt'']).
                 (c \<in> set (columns d1)) = (c \<in> set (columns d2))"
    and cells: "\<forall>i < length (rows d1). \<forall>c \<in> set (categorical_columns @ [''TransactionAmt'']).
                  cell_at (columns d1) (rows d1 ! i) c = cell_at (columns d2) (rows d2 ! i) c"
  shows "predict ohe_encoder clf d1 = predict ohe_encoder clf d2"
proof -
  have a: "getitem d1 categorical_columns = getitem d2 categorical_columns"
    using len cols cells by (intro getitem_cong) auto
  have b: "getitem d1 [''TransactionAmt''] = getitem d2 [''TransactionAmt'']"
    using len cols cells by (intro getitem_cong) auto
  show ?thesis by (simp add: predict_def serve_features_def a b)
qed

theorem extra_fields_ignored_witness:
  "predict example_encoder example_classifier example_request
     = predict example_encoder example_classifier relabelled_request \<and>
   cell_at (columns example_request) (rows example_request ! 0) ''isFraud''
     \<noteq> cell_at (columns relabelled_request) (rows relabelled_request ! 0) ''isFraud'' \<and>
   ''note'' \<notin> set (columns example_request) \<and>
   ''note'' \<in> set (columns relabelled_request)"
proof -
  have len: "length (rows example_request) = length (rows relabelled_request)"
    by (simp add: example_request_def relabelled_request_def)
  have cols: "\<forall>c \<in> set (categorical_columns @ [''TransactionAmt'']).
                 (c \<in> set (columns example_request)) = (c \<in> set (columns relabelled_request))"
    by (simp add: example_request_def relabelled_request_def categorical_columns_def)
  have cells: "\<forall>i < length (rows example_request).
                 \<forall>c \<in> set (categorical_columns @ [''TransactionAmt'']).
                  cell_at (columns example_request) (rows example_request ! i) c
                   = cell_at (columns relabelled_request) (rows relabelled_request ! i) c"
    by (simp add: example_request_def relabelled_request_def categorical_columns_def cell_at_def)
  from extra_fields_ignored [OF len cols cells]
  show ?thesis
    by (simp add: example_request_def relabelled_request_def cell_at_def)
qed




section \<open>The registry\<close>

text \<open>
  C4.  After a \<open>save\<close> under a name, \<open>load\<close> of that name at \<open>Latest\<close> (and at the tag
  of the returned handle) returns an artifact with the saved predictor, preprocessor and
  custom objects, so \<^verbatim>\<open>predict\<close> with the loaded objects is \<^verbatim>\<open>predict\<close> with the saved ones on
  every input.
\<close>

theorem save_then_load_latest:
  assumes "save reg name a = Inr (h, reg')"
  shows "\<exists>a'. load reg' name Latest = Inr a' \<and> load reg' name (snd h) = Inr a' \<and>
           predictor a' = predictor a \<and> preprocessor a' = preprocessor a \<and>
           custom_objects a' = custom_objects a \<and>
           (\<forall>df. predict (preprocessor a') (predictor a') df
                  = predict (preprocessor a) (predictor a) df)"
  using load_latest_after_save [OF assms] load_handle_after_save [OF assms] by simp

theorem save_then_load_latest_witness:
  "\<exists>h reg'. saved_model empty_registry example_classifier example_encoder = Inr (h, reg') \<and>
      (\<exists>a'. load reg' ''fraud_classifier'' Latest = Inr a' \<and>
             predictor a' = example_classifier \<and>
             map_of (custom_objects a') ''ohe_encoder'' = Some example_encoder) \<and>
      startup reg' = Ready example_encoder example_classifier"
proof -
  let ?a = "\<lparr>predictor = example_classifier, preprocessor = example_encoder,
        labels = [(''owner'', ''Cerebrium''), (''stage'', ''prod'')],
        metadata = [(''version'', ''1.0.0'')],
        custom_objects = [(''ohe_encoder'', example_encoder)],
        signature = \<lparr>batchable = True, batch_dim = 0\<rparr>\<rparr>"
  obtain h reg' where s: "save empty_registry ''fraud_classifier'' ?a = Inr (h, reg')"
    by (simp add: save_def empty_registry_def)
  from save_then_load_latest [OF s]
  obtain a' where l: "load reg' ''fraud_classifier'' Latest = Inr a'"
    and p: "predictor a' = example_classifier"
    and c: "custom_objects a' = [(''ohe_encoder'', example_encoder)]"
    by auto
  from l p c have "startup reg' = Ready example_encoder example_classifier"
    by (simp add: startup_def)
  with s l p c show ?thesis unfolding saved_model_def by auto
qed

text \<open>
  C5.  Two successive saves under one name give two different tags, each of which loads
  what was saved under it, and \<open>Latest\<close> is the second.  No \<open>save\<close> changes what a
  written tag of any name loads; after every \<open>save\<close>, \<open>Latest\<close> of its name is the artifact
  just saved, and \<open>Latest\<close> of every other name is unchanged.
\<close>

theorem versions_are_distinct_and_immutable:
  assumes s1: "save r0 name a1 = Inr (h1, r1)" and s2: "save r1 name a2 = Inr (h2, r2)"
  shows "snd h1 \<noteq> snd h2 \<and>
         load r2 name (snd h1) = Inr a1 \<and> load r2 name (snd h2) = Inr a2 \<and>
         load r1 name Latest = Inr a1 \<and> load r2 name Latest = Inr a2 \<and>
         (\<forall>reg n a h reg' m k x.
            save reg n a = Inr (h, reg') \<and> load reg m (Version k) = Inr x \<longrightarrow>
            load reg' m (Version k) = Inr x) \<and>
         (\<forall>reg n a h reg'.
            save reg n a = Inr (h, reg') \<longrightarrow>
            load reg' n Latest = Inr a \<and>
            (\<forall>m. m \<noteq> n \<longrightarrow> load reg' m Latest = load reg m Latest))"
proof -
  have t: "snd h1 = Version (length (versions_of r0 name))"
    "snd h2 = Version (Suc (length (versions_of r0 name)))"
    using save_Inr [OF s1] save_Inr [OF s2] by simp_all
  have a: "snd h1 \<noteq> snd h2" using t by simp
  have b: "load r2 name (snd h1) = Inr a1"
    using load_version_preserved [OF s2, of name "length (versions_of r0 name)" a1]
      load_handle_after_save [OF s1] t(1) by simp
  have c: "load r2 name (snd h2) = Inr a2" by (rule load_handle_after_save [OF s2])
  have d: "load r1 name Latest = Inr a1" "load r2 name Latest = Inr a2"
    by (rule load_latest_after_save [OF s1], rule load_latest_after_save [OF s2])
  from a b c d show ?thesis
    using load_version_preserved load_latest_after_save load_latest_other_name by blast
qed

theorem versions_are_distinct_and_immutable_witness:
  "\<exists>h1 r1 h2 r2.
     saved_model empty_registry example_classifier example_encoder = Inr (h1, r1) \<and>
     saved_model r1 example_classifier (example_encoder\<lparr>handle_unknown := Raise\<rparr>) = Inr (h2, r2) \<and>
     snd h1 = Version 0 \<and> snd h2 = Version 1 \<and>
     (\<exists>a1 a2. load r2 ''fraud_classifier'' (Version 0) = Inr a1 \<and>
              load r2 ''fraud_classifier'' Latest = Inr a2 \<and>
              handle_unknown (preprocessor a1) = Ignore \<and>
              handle_unknown (preprocessor a2) = Raise)"
proof -
  let ?a1 = "\<lparr>predictor = example_classifier, preprocessor = example_encoder,
        labels = [(''owner'', ''Cerebrium''), (''stage'', ''prod'')],
        metadata = [(''version'', ''1.0.0'')],
        custom_objects = [(''ohe_encoder'', example_encoder)],
        signature = \<lparr>batchable = True, batch_dim = 0\<rparr>\<rparr>"
  let ?a2 = "\<lparr>predictor = example_classifier,
        preprocessor = example_encoder\<lparr>handle_unknown := Raise\<rparr>,
        labels = [(''owner'', ''Cerebrium''), (''stage'', ''prod'')],
        metadata = [(''version'', ''1.0.0'')],
        custom_objects = [(''ohe_encoder'', example_encoder\<lparr>handle_unknown := Raise\<rparr>)],
        signature = \<lparr>batchable = True, batch_dim = 0\<rparr>\<rparr>"
  obtain h1 r1 where s1: "save empty_registry ''fraud_classifier'' ?a1 = Inr (h1, r1)"
    and h1: "snd h1 = Version 0" and r1: "reachable r1" "supported r1 = (\<lambda>s. True)"
    by (simp add: save_def empty_registry_def versions_of_def)
  obtain h2 r2 where s2: "save r1 ''fraud_classifier'' ?a2 = Inr (h2, r2)"
    using r1 by (simp add: save_def)
  from versions_are_distinct_and_immutable [OF s1 s2]
  have d: "snd h1 \<noteq> snd h2" and l1: "load r2 ''fraud_classifier'' (snd h1) = Inr ?a1"
    and l2: "load r2 ''fraud_classifier'' Latest = Inr ?a2"
    by blast+
  have "versions_of empty_registry ''fraud_classifier'' = []"
    by (simp add: empty_registry_def versions_of_def)
  then have "length (versions_of r1 ''fraud_classifier'') = 1"
    by (simp add: save_Inr(2) [OF s1])
  then have h2: "snd h2 = Version 1"
    using save_Inr(1) [OF s2] by simp
  have e: "handle_unknown (preprocessor ?a1) = Ignore" by (simp add: example_encoder_def)
  from s1 s2 h1 h2 l1 l2 e show ?thesis
    unfolding saved_model_def by (intro exI conjI) (assumption | simp)+
qed

end
